theory Spec2Isabelle
  imports Complex_Main "HOL-Library.List_Lexorder" "HOL-Library.Char_ord"
begin

section \<open>The data of the interpreter\<close>

text \<open>
  The evaluator of \<^verbatim>\<open>stimpl/runtime.py\<close> returns triples
  \<^verbatim>\<open>(value, type, state)\<close>. The modules \<^verbatim>\<open>stimpl.types\<close>,
  \<^verbatim>\<open>stimpl.expression\<close> and \<^verbatim>\<open>stimpl.errors\<close> only declare the
  classes that \<^verbatim>\<open>runtime.py\<close> matches on and raises.
\<close>

text \<open>
  Modelled from the spec: the class declarations of \<^verbatim>\<open>stimpl.types\<close>. The type
  tags are exactly the five nominal tags, equal by tag identity only.
\<close>

datatype ty = Unit | Integer | FloatingPoint | String | Boolean

text \<open>
  The payloads that travel with a tag: Python's \<^verbatim>\<open>None\<close>, unbounded integers,
  floats, strings and booleans. Floats are kept abstract: \<open>'f\<close> is the type of float
  payloads, and the float operations the evaluator uses arrive in a record.
\<close>

datatype 'f val = PyNone | PyInt int | PyFloat 'f | PyStr string | PyBool bool

record 'f float_ops =
  fl_add :: "'f \<Rightarrow> 'f \<Rightarrow> 'f"
  fl_sub :: "'f \<Rightarrow> 'f \<Rightarrow> 'f"
  fl_mul :: "'f \<Rightarrow> 'f \<Rightarrow> 'f"
  fl_div :: "'f \<Rightarrow> 'f \<Rightarrow> 'f"
  fl_lt :: "'f \<Rightarrow> 'f \<Rightarrow> bool"
  fl_le :: "'f \<Rightarrow> 'f \<Rightarrow> bool"
  fl_eq :: "'f \<Rightarrow> 'f \<Rightarrow> bool"
  fl_is_zero :: "'f \<Rightarrow> bool"

text \<open>
  Modelled from the spec: the exception classes of \<^verbatim>\<open>stimpl.errors\<close>, one
  constructor per failure kind (the message text is not kept). \<open>HostError\<close> is not one of
  them: it marks an operator of the host language applied to payloads of another kind than
  the tag announces, which the model does not follow further.
\<close>

datatype error = InterpSyntaxError | InterpTypeError | InterpMathError | HostError

text \<open>
  Modelled from the spec: the node classes of \<^verbatim>\<open>stimpl.expression\<close>, one
  constructor per class that \<^verbatim>\<open>evaluate\<close> matches. \<^verbatim>\<open>Not\<close> and
  \<^verbatim>\<open>If\<close> carry a suffix. \<^verbatim>\<open>Assign\<close> holds a \<^verbatim>\<open>Variable\<close> node of
  which only \<^verbatim>\<open>variable_name\<close> is read, so the name is stored. \<open>OtherExpr\<close>
  stands for a node of any other class, which only the final \<^verbatim>\<open>case _\<close> matches.
\<close>

datatype 'f expr =
    Ren
  | IntLiteral int
  | FloatingPointLiteral 'f
  | StringLiteral string
  | BooleanLiteral bool
  | Print "'f expr"
  | Sequence "'f expr list"
  | Program "'f expr list"
  | Variable string
  | Assign string "'f expr"
  | Add "'f expr" "'f expr"
  | Subtract "'f expr" "'f expr"
  | Multiply "'f expr" "'f expr"
  | Divide "'f expr" "'f expr"
  | And "'f expr" "'f expr"
  | Or "'f expr" "'f expr"
  | Not_expr "'f expr"
  | If_expr "'f expr" "'f expr" "'f expr"
  | Lt "'f expr" "'f expr"
  | Lte "'f expr" "'f expr"
  | Gt "'f expr" "'f expr"
  | Gte "'f expr" "'f expr"
  | Eq "'f expr" "'f expr"
  | Ne "'f expr" "'f expr"
  | While "'f expr" "'f expr"
  | OtherExpr

subsection \<open>Interpreter state\<close>

text \<open>
  \<^verbatim>\<open>class State\<close> is a chain of bindings that ends in \<^verbatim>\<open>EmptyState\<close>.
\<close>

datatype 'f state = EmptyState | State string "'f val" ty "'f state"

fun get_value :: "'f state \<Rightarrow> string \<Rightarrow> ('f val \<times> ty) option" where
  "get_value EmptyState variable_name = None"
| "get_value (State name v t next_state) variable_name =
     (if variable_name = name then Some (v, t) else get_value next_state variable_name)"

definition set_value :: "'f state \<Rightarrow> string \<Rightarrow> 'f val \<Rightarrow> ty \<Rightarrow> 'f state" where
  "set_value self variable_name variable_value variable_type =
     State variable_name variable_value variable_type self"

text \<open>The bindings of a chain, the most recent one first.\<close>

fun bindings :: "'f state \<Rightarrow> (string \<times> 'f val \<times> ty) list" where
  "bindings EmptyState = []"
| "bindings (State name v t next_state) = (name, v, t) # bindings next_state"

section \<open>The host operators on payloads\<close>

text \<open>Truth value testing, as \<^verbatim>\<open>while(if_cond_value)\<close> and \<^verbatim>\<open>and\<close> use it.\<close>

fun truthy :: "'f float_ops \<Rightarrow> 'f val \<Rightarrow> bool" where
  "truthy ops PyNone = False"
| "truthy ops (PyInt i) = (i \<noteq> 0)"
| "truthy ops (PyFloat x) = (\<not> fl_is_zero ops x)"
| "truthy ops (PyStr s) = (s \<noteq> [])"
| "truthy ops (PyBool b) = b"

text \<open>\<^verbatim>\<open>right_result == 0\<close>: a number equal to zero, and \<^verbatim>\<open>False\<close> is the number 0.\<close>

fun eq_zero :: "'f float_ops \<Rightarrow> 'f val \<Rightarrow> bool" where
  "eq_zero ops PyNone = False"
| "eq_zero ops (PyInt i) = (i = 0)"
| "eq_zero ops (PyFloat x) = fl_is_zero ops x"
| "eq_zero ops (PyStr s) = False"
| "eq_zero ops (PyBool b) = (\<not> b)"

fun py_add :: "'f float_ops \<Rightarrow> 'f val \<Rightarrow> 'f val \<Rightarrow> error + 'f val" where
  "py_add ops (PyInt a) (PyInt b) = Inr (PyInt (a + b))"
| "py_add ops (PyStr a) (PyStr b) = Inr (PyStr (a @ b))"
| "py_add ops (PyFloat a) (PyFloat b) = Inr (PyFloat (fl_add ops a b))"
| "py_add ops _ _ = Inl HostError"

fun py_sub :: "'f float_ops \<Rightarrow> 'f val \<Rightarrow> 'f val \<Rightarrow> error + 'f val" where
  "py_sub ops (PyInt a) (PyInt b) = Inr (PyInt (a - b))"
| "py_sub ops (PyFloat a) (PyFloat b) = Inr (PyFloat (fl_sub ops a b))"
| "py_sub ops _ _ = Inl HostError"

fun py_mul :: "'f float_ops \<Rightarrow> 'f val \<Rightarrow> 'f val \<Rightarrow> error + 'f val" where
  "py_mul ops (PyInt a) (PyInt b) = Inr (PyInt (a * b))"
| "py_mul ops (PyFloat a) (PyFloat b) = Inr (PyFloat (fl_mul ops a b))"
| "py_mul ops _ _ = Inl HostError"

text \<open>
  \<^verbatim>\<open>/\<close> on floats and \<^verbatim>\<open>//\<close> on integers. Both raise the host's
  \<^verbatim>\<open>ZeroDivisionError\<close> on a zero divisor.
\<close>

fun py_truediv :: "'f float_ops \<Rightarrow> 'f val \<Rightarrow> 'f val \<Rightarrow> error + 'f val" where
  "py_truediv ops (PyFloat a) (PyFloat b) =
     (if fl_is_zero ops b then Inl HostError else Inr (PyFloat (fl_div ops a b)))"
| "py_truediv ops _ _ = Inl HostError"

fun py_floordiv :: "'f float_ops \<Rightarrow> 'f val \<Rightarrow> 'f val \<Rightarrow> error + 'f val" where
  "py_floordiv ops (PyInt a) (PyInt b) =
     (if b = 0 then Inl HostError else Inr (PyInt (a div b)))"
| "py_floordiv ops _ _ = Inl HostError"

text \<open>
  The comparisons; strings compare lexicographically by character code,
  \<^verbatim>\<open>False < True\<close>.
\<close>

fun py_lt :: "'f float_ops \<Rightarrow> 'f val \<Rightarrow> 'f val \<Rightarrow> error + 'f val" where
  "py_lt ops (PyInt a) (PyInt b) = Inr (PyBool (a < b))"
| "py_lt ops (PyBool a) (PyBool b) = Inr (PyBool (a < b))"
| "py_lt ops (PyStr a) (PyStr b) = Inr (PyBool (a < b))"
| "py_lt ops (PyFloat a) (PyFloat b) = Inr (PyBool (fl_lt ops a b))"
| "py_lt ops _ _ = Inl HostError"

fun py_le :: "'f float_ops \<Rightarrow> 'f val \<Rightarrow> 'f val \<Rightarrow> error + 'f val" where
  "py_le ops (PyInt a) (PyInt b) = Inr (PyBool (a \<le> b))"
| "py_le ops (PyBool a) (PyBool b) = Inr (PyBool (a \<le> b))"
| "py_le ops (PyStr a) (PyStr b) = Inr (PyBool (a \<le> b))"
| "py_le ops (PyFloat a) (PyFloat b) = Inr (PyBool (fl_le ops a b))"
| "py_le ops _ _ = Inl HostError"

definition py_gt :: "'f float_ops \<Rightarrow> 'f val \<Rightarrow> 'f val \<Rightarrow> error + 'f val" where
  "py_gt ops a b = py_lt ops b a"

definition py_ge :: "'f float_ops \<Rightarrow> 'f val \<Rightarrow> 'f val \<Rightarrow> error + 'f val" where
  "py_ge ops a b = py_le ops b a"

fun py_eq :: "'f float_ops \<Rightarrow> 'f val \<Rightarrow> 'f val \<Rightarrow> error + bool" where
  "py_eq ops PyNone PyNone = Inr True"
| "py_eq ops (PyInt a) (PyInt b) = Inr (a = b)"
| "py_eq ops (PyBool a) (PyBool b) = Inr (a = b)"
| "py_eq ops (PyStr a) (PyStr b) = Inr (a = b)"
| "py_eq ops (PyFloat a) (PyFloat b) = Inr (fl_eq ops a b)"
| "py_eq ops _ _ = Inl HostError"

text \<open>\<^verbatim>\<open>a and b\<close>, \<^verbatim>\<open>a or b\<close> return one of their operands.\<close>

definition py_and :: "'f float_ops \<Rightarrow> 'f val \<Rightarrow> 'f val \<Rightarrow> 'f val" where
  "py_and ops a b = (if truthy ops a then b else a)"

definition py_or :: "'f float_ops \<Rightarrow> 'f val \<Rightarrow> 'f val \<Rightarrow> 'f val" where
  "py_or ops a b = (if truthy ops a then a else b)"

section \<open>Results\<close>

text \<open>
  An evaluation raises (\<open>Inl\<close>), returns (\<open>Inr\<close>), or is still running when the
  iteration bound of a loop is used up (\<open>None\<close>).
\<close>

type_synonym 'a res = "(error + 'a) option"

definition bind_res :: "'a res \<Rightarrow> ('a \<Rightarrow> 'b res) \<Rightarrow> 'b res" where
  "bind_res m f = (case m of None \<Rightarrow> None | Some (Inl e) \<Rightarrow> Some (Inl e) | Some (Inr x) \<Rightarrow> f x)"

definition lift_res :: "error + 'a \<Rightarrow> ('a \<Rightarrow> 'b res) \<Rightarrow> 'b res" where
  "lift_res r f = bind_res (Some r) f"


abbreviation raise :: "error \<Rightarrow> 'a res" where
  "raise e \<equiv> Some (Inl e)"

abbreviation return :: "'a \<Rightarrow> 'a res" where
  "return x \<equiv> Some (Inr x)"

section \<open>Main evaluation logic\<close>

text \<open>
  \<^verbatim>\<open>evaluate(expression, state)\<close>, one equation per \<^verbatim>\<open>case\<close>.
  \<open>evaluate_exprs\<close> is the \<^verbatim>\<open>for expr in exprs\<close> loop of the
  \<^verbatim>\<open>Sequence | Program\<close> case, carrying \<^verbatim>\<open>variable_value\<close>,
  \<^verbatim>\<open>variable_type\<close> and \<^verbatim>\<open>new_state\<close>; \<open>while_loop\<close> is the
  \<^verbatim>\<open>while(if_cond_value)\<close> loop of the \<^verbatim>\<open>While\<close> case, carrying
  \<^verbatim>\<open>if_cond_value\<close> and \<^verbatim>\<open>new_state\<close>. That loop may run forever:
  \<open>fuel\<close> bounds the number of iterations of each execution of a
  \<^verbatim>\<open>while\<close> (the second number of \<open>while_loop\<close> counts the iterations
  that are left), and \<open>None\<close> says the bound was reached. \<^verbatim>\<open>Print\<close> writes
  to standard output, which is not part of the returned triple and is not modelled.
  In the ordering comparisons the tag set is closed, so the source's last
  \<^verbatim>\<open>case _\<close> has no tag left to match.
\<close>

function evaluate ::
    "'f float_ops \<Rightarrow> nat \<Rightarrow> 'f expr \<Rightarrow> 'f state \<Rightarrow> ('f val \<times> ty \<times> 'f state) res"
  and evaluate_exprs ::
    "'f float_ops \<Rightarrow> nat \<Rightarrow> 'f expr list \<Rightarrow> 'f val \<Rightarrow> ty \<Rightarrow> 'f state
      \<Rightarrow> ('f val \<times> ty \<times> 'f state) res"
  and while_loop ::
    "'f float_ops \<Rightarrow> nat \<Rightarrow> nat \<Rightarrow> 'f expr \<Rightarrow> 'f expr \<Rightarrow> 'f val \<Rightarrow> 'f state
      \<Rightarrow> 'f state res"
where
  "evaluate ops fuel Ren state = return (PyNone, Unit, state)"
| "evaluate ops fuel (IntLiteral l) state = return (PyInt l, Integer, state)"
| "evaluate ops fuel (FloatingPointLiteral l) state = return (PyFloat l, FloatingPoint, state)"
| "evaluate ops fuel (StringLiteral l) state = return (PyStr l, String, state)"
| "evaluate ops fuel (BooleanLiteral l) state = return (PyBool l, Boolean, state)"
| "evaluate ops fuel (Print to_print) state =
     bind_res (evaluate ops fuel to_print state)
       (\<lambda>(printable_value, printable_type, new_state).
          return (printable_value, printable_type, new_state))"
| "evaluate ops fuel (Sequence exprs) state = evaluate_exprs ops fuel exprs PyNone Unit state"
| "evaluate ops fuel (Program exprs) state = evaluate_exprs ops fuel exprs PyNone Unit state"
| "evaluate ops fuel (Variable variable_name) state =
     (case get_value state variable_name of
        None \<Rightarrow> raise InterpSyntaxError
      | Some (variable_value, variable_type) \<Rightarrow> return (variable_value, variable_type, state))"
| "evaluate ops fuel (Assign variable_name value) state =
     bind_res (evaluate ops fuel value state)
       (\<lambda>(value_result, value_type, new_state).
          case get_value new_state variable_name of
            None \<Rightarrow>
              return (value_result, value_type,
                set_value new_state variable_name value_result value_type)
          | Some (_, variable_type) \<Rightarrow>
              if value_type \<noteq> variable_type then raise InterpTypeError
              else return (value_result, value_type,
                set_value new_state variable_name value_result value_type))"
| "evaluate ops fuel (Add left right) state =
     bind_res (evaluate ops fuel left state) (\<lambda>(left_result, left_type, new_state).
     bind_res (evaluate ops fuel right new_state) (\<lambda>(right_result, right_type, new_state).
       if left_type \<noteq> right_type then raise InterpTypeError
       else case left_type of
         Integer \<Rightarrow> lift_res (py_add ops left_result right_result)
           (\<lambda>result. return (result, left_type, new_state))
       | String \<Rightarrow> lift_res (py_add ops left_result right_result)
           (\<lambda>result. return (result, left_type, new_state))
       | FloatingPoint \<Rightarrow> lift_res (py_add ops left_result right_result)
           (\<lambda>result. return (result, left_type, new_state))
       | _ \<Rightarrow> raise InterpTypeError))"
| "evaluate ops fuel (Subtract left right) state =
     bind_res (evaluate ops fuel left state) (\<lambda>(left_result, left_type, new_state).
     bind_res (evaluate ops fuel right new_state) (\<lambda>(right_result, right_type, new_state).
       if left_type \<noteq> right_type then raise InterpTypeError
       else case left_type of
         Integer \<Rightarrow> lift_res (py_sub ops left_result right_result)
           (\<lambda>result. return (result, left_type, new_state))
       | FloatingPoint \<Rightarrow> lift_res (py_sub ops left_result right_result)
           (\<lambda>result. return (result, left_type, new_state))
       | _ \<Rightarrow> raise InterpTypeError))"
| "evaluate ops fuel (Multiply left right) state =
     bind_res (evaluate ops fuel left state) (\<lambda>(left_result, left_type, new_state).
     bind_res (evaluate ops fuel right new_state) (\<lambda>(right_result, right_type, new_state).
       if left_type \<noteq> right_type then raise InterpTypeError
       else case left_type of
         Integer \<Rightarrow> lift_res (py_mul ops left_result right_result)
           (\<lambda>result. return (result, left_type, new_state))
       | FloatingPoint \<Rightarrow> lift_res (py_mul ops left_result right_result)
           (\<lambda>result. return (result, left_type, new_state))
       | _ \<Rightarrow> raise InterpTypeError))"
| "evaluate ops fuel (Divide left right) state =
     bind_res (evaluate ops fuel left state) (\<lambda>(left_result, left_type, new_state).
     bind_res (evaluate ops fuel right new_state) (\<lambda>(right_result, right_type, new_state).
       if eq_zero ops right_result then raise InterpMathError
       else if left_type \<noteq> right_type then raise InterpTypeError
       else case left_type of
         FloatingPoint \<Rightarrow> lift_res (py_truediv ops left_result right_result)
           (\<lambda>result. return (result, left_type, new_state))
       | Integer \<Rightarrow> lift_res (py_floordiv ops left_result right_result)
           (\<lambda>result. return (result, left_type, new_state))
       | _ \<Rightarrow> raise InterpTypeError))"
| "evaluate ops fuel (And left right) state =
     bind_res (evaluate ops fuel left state) (\<lambda>(left_value, left_type, new_state).
     bind_res (evaluate ops fuel right new_state) (\<lambda>(right_value, right_type, new_state).
       if left_type \<noteq> right_type then raise InterpTypeError
       else case left_type of
         Boolean \<Rightarrow> return (py_and ops left_value right_value, left_type, new_state)
       | _ \<Rightarrow> raise InterpTypeError))"
| "evaluate ops fuel (Or left right) state =
     bind_res (evaluate ops fuel left state) (\<lambda>(left_value, left_type, new_state).
     bind_res (evaluate ops fuel right new_state) (\<lambda>(right_value, right_type, new_state).
       if left_type \<noteq> right_type then raise InterpTypeError
       else case left_type of
         Boolean \<Rightarrow> return (py_or ops left_value right_value, left_type, new_state)
       | _ \<Rightarrow> raise InterpTypeError))"
| "evaluate ops fuel (Not_expr expr) state =
     bind_res (evaluate ops fuel expr state) (\<lambda>(variable_value, variable_type, new_state).
       if variable_type = Boolean
       then return (PyBool (\<not> truthy ops variable_value), Boolean, new_state)
       else raise InterpTypeError)"
| "evaluate ops fuel (If_expr condition true false) state =
     bind_res (evaluate ops fuel condition state) (\<lambda>(variable_value, variable_type, new_state).
       if variable_type \<noteq> Boolean then raise InterpTypeError
       else if truthy ops variable_value then evaluate ops fuel true new_state
       else evaluate ops fuel false new_state)"
| "evaluate ops fuel (Lt left right) state =
     bind_res (evaluate ops fuel left state) (\<lambda>(left_value, left_type, new_state).
     bind_res (evaluate ops fuel right new_state) (\<lambda>(right_value, right_type, new_state).
       if left_type \<noteq> right_type then raise InterpTypeError
       else case left_type of
         Integer \<Rightarrow> lift_res (py_lt ops left_value right_value)
           (\<lambda>result. return (result, Boolean, new_state))
       | Boolean \<Rightarrow> lift_res (py_lt ops left_value right_value)
           (\<lambda>result. return (result, Boolean, new_state))
       | String \<Rightarrow> lift_res (py_lt ops left_value right_value)
           (\<lambda>result. return (result, Boolean, new_state))
       | FloatingPoint \<Rightarrow> lift_res (py_lt ops left_value right_value)
           (\<lambda>result. return (result, Boolean, new_state))
       | Unit \<Rightarrow> return (PyBool False, Boolean, new_state)))"
| "evaluate ops fuel (Lte left right) state =
     bind_res (evaluate ops fuel left state) (\<lambda>(left_value, left_type, new_state).
     bind_res (evaluate ops fuel right new_state) (\<lambda>(right_value, right_type, new_state).
       if left_type \<noteq> right_type then raise InterpTypeError
       else case left_type of
         Integer \<Rightarrow> lift_res (py_le ops left_value right_value)
           (\<lambda>result. return (result, Boolean, new_state))
       | Boolean \<Rightarrow> lift_res (py_le ops left_value right_value)
           (\<lambda>result. return (result, Boolean, new_state))
       | String \<Rightarrow> lift_res (py_le ops left_value right_value)
           (\<lambda>result. return (result, Boolean, new_state))
       | FloatingPoint \<Rightarrow> lift_res (py_le ops left_value right_value)
           (\<lambda>result. return (result, Boolean, new_state))
       | Unit \<Rightarrow> return (PyBool True, Boolean, new_state)))"
| "evaluate ops fuel (Gt left right) state =
     bind_res (evaluate ops fuel left state) (\<lambda>(left_value, left_type, new_state).
     bind_res (evaluate ops fuel right new_state) (\<lambda>(right_value, right_type, new_state).
       if left_type \<noteq> right_type then raise InterpTypeError
       else case left_type of
         Integer \<Rightarrow> lift_res (py_gt ops left_value right_value)
           (\<lambda>result. return (result, Boolean, new_state))
       | Boolean \<Rightarrow> lift_res (py_gt ops left_value right_value)
           (\<lambda>result. return (result, Boolean, new_state))
       | String \<Rightarrow> lift_res (py_gt ops left_value right_value)
           (\<lambda>result. return (result, Boolean, new_state))
       | FloatingPoint \<Rightarrow> lift_res (py_gt ops left_value right_value)
           (\<lambda>result. return (result, Boolean, new_state))
       | Unit \<Rightarrow> return (PyBool False, Boolean, new_state)))"
| "evaluate ops fuel (Gte left right) state =
     bind_res (evaluate ops fuel left state) (\<lambda>(left_value, left_type, new_state).
     bind_res (evaluate ops fuel right new_state) (\<lambda>(right_value, right_type, new_state).
       if left_type \<noteq> right_type then raise InterpTypeError
       else case left_type of
         Integer \<Rightarrow> lift_res (py_ge ops left_value right_value)
           (\<lambda>result. return (result, Boolean, new_state))
       | Boolean \<Rightarrow> lift_res (py_ge ops left_value right_value)
           (\<lambda>result. return (result, Boolean, new_state))
       | String \<Rightarrow> lift_res (py_ge ops left_value right_value)
           (\<lambda>result. return (result, Boolean, new_state))
       | FloatingPoint \<Rightarrow> lift_res (py_ge ops left_value right_value)
           (\<lambda>result. return (result, Boolean, new_state))
       | Unit \<Rightarrow> return (PyBool True, Boolean, new_state)))"
| "evaluate ops fuel (Eq left right) state =
     bind_res (evaluate ops fuel left state) (\<lambda>(left_value, left_type, new_state).
     bind_res (evaluate ops fuel right new_state) (\<lambda>(right_value, right_type, new_state).
       if left_type \<noteq> right_type then raise InterpTypeError
       else if left_type = Unit then return (PyBool True, Boolean, new_state)
       else lift_res (py_eq ops left_value right_value)
         (\<lambda>result. return (PyBool result, Boolean, new_state))))"
| "evaluate ops fuel (Ne left right) state =
     bind_res (evaluate ops fuel left state) (\<lambda>(left_value, left_type, new_state).
     bind_res (evaluate ops fuel right new_state) (\<lambda>(right_value, right_type, new_state).
       if left_type \<noteq> right_type then raise InterpTypeError
       else if left_type = Unit then return (PyBool False, Boolean, new_state)
       else lift_res (py_eq ops left_value right_value)
         (\<lambda>result. return (PyBool (\<not> result), Boolean, new_state))))"
| "evaluate ops fuel (While condition body) state =
     bind_res (evaluate ops fuel condition state) (\<lambda>(if_cond_value, if_cond_type, new_state).
       if if_cond_type \<noteq> Boolean then raise InterpTypeError
       else bind_res (while_loop ops fuel fuel condition body if_cond_value new_state)
         (\<lambda>new_state. return (PyBool False, Boolean, new_state)))"
| "evaluate ops fuel OtherExpr state = raise InterpSyntaxError"
| "evaluate_exprs ops fuel [] variable_value variable_type new_state =
     return (variable_value, variable_type, new_state)"
| "evaluate_exprs ops fuel (expr # exprs) variable_value variable_type new_state =
     bind_res (evaluate ops fuel expr new_state)
       (\<lambda>(variable_value, variable_type, new_state).
          evaluate_exprs ops fuel exprs variable_value variable_type new_state)"
| "while_loop ops fuel 0 condition body if_cond_value new_state =
     (if truthy ops if_cond_value then None else return new_state)"
| "while_loop ops fuel (Suc n) condition body if_cond_value new_state =
     (if truthy ops if_cond_value then
        bind_res (evaluate ops fuel body new_state) (\<lambda>(_, result_type, new_state).
        bind_res (evaluate ops fuel condition new_state) (\<lambda>(if_cond_value, _, new_state).
          while_loop ops fuel n condition body if_cond_value new_state))
      else return new_state)"
  by pat_completeness auto

termination
  by (relation "measures
        [\<lambda>x. case x of
           Inl (ops, fuel, e, s) \<Rightarrow> 2 * size e
         | Inr (Inl (ops, fuel, es, v, t, s)) \<Rightarrow> 2 * size_list size es + 1
         | Inr (Inr (ops, fuel, n, c, b, v, s)) \<Rightarrow> 2 * (size c + size b) + 1,
         \<lambda>x. case x of
           Inr (Inr (ops, fuel, n, c, b, v, s)) \<Rightarrow> n
         | _ \<Rightarrow> 0]")
    auto

text \<open>\<^verbatim>\<open>run_stimpl(program)\<close> without the debug printing.\<close>

definition run_stimpl :: "'f float_ops \<Rightarrow> nat \<Rightarrow> 'f expr \<Rightarrow> ('f val \<times> ty \<times> 'f state) res" where
  "run_stimpl ops fuel program = evaluate ops fuel program EmptyState"


section \<open>Runs of the loop\<close>

text \<open>
  One pass of the \<^verbatim>\<open>while\<close> loop: the body, then the condition again, each
  against the environment the previous evaluation produced. It returns what that
  evaluation of the condition returned.
\<close>

definition iteration ::
    "'f float_ops \<Rightarrow> nat \<Rightarrow> 'f expr \<Rightarrow> 'f expr \<Rightarrow> 'f state \<Rightarrow> ('f val \<times> ty \<times> 'f state) res" where
  "iteration ops fuel condition body new_state =
     bind_res (evaluate ops fuel body new_state)
       (\<lambda>(_, result_type, new_state). evaluate ops fuel condition new_state)"

text \<open>
  The specification's reading of a loop that terminates normally, to compare with
  \<open>while_loop\<close>: \<open>loop_trace ops fuel c b v s tr\<close> says that the loop entered with the
  condition value \<open>v\<close> in environment \<open>s\<close> runs \<open>length tr\<close> passes, \<open>tr\<close> listing what
  the condition returned after each pass; every pass starts from a true condition value
  and the last condition value is false. \<open>final_state\<close> is the environment it leaves.
\<close>

fun loop_trace ::
    "'f float_ops \<Rightarrow> nat \<Rightarrow> 'f expr \<Rightarrow> 'f expr \<Rightarrow> 'f val \<Rightarrow> 'f state
      \<Rightarrow> ('f val \<times> ty \<times> 'f state) list \<Rightarrow> bool" where
  "loop_trace ops fuel c b v s [] = (\<not> truthy ops v)"
| "loop_trace ops fuel c b v s (r # tr) =
     (truthy ops v \<and> iteration ops fuel c b s = return r \<and>
      loop_trace ops fuel c b (fst r) (snd (snd r)) tr)"

fun final_state :: "'f state \<Rightarrow> ('f val \<times> ty \<times> 'f state) list \<Rightarrow> 'f state" where
  "final_state s [] = s"
| "final_state s (r # tr) = final_state (snd (snd r)) tr"

section \<open>Payloads that agree with their tag\<close>

text \<open>
  Every literal pairs a payload with the tag of its kind, and \<^verbatim>\<open>run_stimpl\<close> starts
  from \<^verbatim>\<open>EmptyState\<close>. \<open>well_tagged\<close> names that agreement; it is shown below to
  be kept by every evaluation, so that the host operators meet payloads of the announced
  kind only and \<open>HostError\<close> never leaves the evaluator.
\<close>

fun well_tagged :: "'f val \<Rightarrow> ty \<Rightarrow> bool" where
  "well_tagged PyNone t = (t = Unit)"
| "well_tagged (PyInt i) t = (t = Integer)"
| "well_tagged (PyFloat x) t = (t = FloatingPoint)"
| "well_tagged (PyStr s) t = (t = String)"
| "well_tagged (PyBool b) t = (t = Boolean)"

fun well_tagged_state :: "'f state \<Rightarrow> bool" where
  "well_tagged_state EmptyState = True"
| "well_tagged_state (State name v t next_state) =
     (well_tagged v t \<and> well_tagged_state next_state)"

fun well_tagged_result :: "error + 'f val \<times> ty \<times> 'f state \<Rightarrow> bool" where
  "well_tagged_result (Inl e) = (e \<noteq> HostError)"
| "well_tagged_result (Inr (v, t, s)) = (well_tagged v t \<and> well_tagged_state s)"

section \<open>Float operations for the examples\<close>

text \<open>
  The examples below run the evaluator; for them the float payloads are rational numbers
  with exact arithmetic. No theorem depends on this choice.
\<close>

definition exact_ops :: "rat float_ops" where
  "exact_ops = \<lparr>fl_add = (+), fl_sub = (-), fl_mul = (*), fl_div = (/),
     fl_lt = (<), fl_le = (\<le>), fl_eq = (=), fl_is_zero = (\<lambda>x. x = 0)\<rparr>"

text \<open>
  A loop whose condition is \<^verbatim>\<open>True\<close> while \<^verbatim>\<open>n\<close> is 0 and the integer
  \<^verbatim>\<open>2 - n\<close> afterwards, and whose body adds 1 to \<^verbatim>\<open>n\<close>.
\<close>

definition count_cond :: "rat expr" where
  "count_cond = If_expr (Eq (Variable ''n'') (IntLiteral 0)) (BooleanLiteral True)
     (Subtract (IntLiteral 2) (Variable ''n''))"

definition count_body :: "rat expr" where
  "count_body = Assign ''n'' (Add (Variable ''n'') (IntLiteral 1))"

definition count_0 :: "rat state" where
  "count_0 = State ''n'' (PyInt 0) Integer EmptyState"

definition count_1 :: "rat state" where
  "count_1 = State ''n'' (PyInt 1) Integer count_0"

definition count_2 :: "rat state" where
  "count_2 = State ''n'' (PyInt 2) Integer count_1"

section \<open>Basic facts\<close>

lemma bind_res_simps [simp]:
  "bind_res None f = None"
  "bind_res (raise e) f = raise e"
  "bind_res (return x) f = f x"
  by (simp_all add: bind_res_def)

lemma lift_res_simps [simp]:
  "lift_res (Inl e) f = raise e"
  "lift_res (Inr x) f = f x"
  by (simp_all add: lift_res_def)


lemma bind_res_return:
  "bind_res m (\<lambda>(a, b, c). return (a, b, c)) = m"
  by (auto simp: bind_res_def split: option.splits sum.splits)

lemma bind_resE:
  assumes "bind_res m f = Some r"
  obtains e where "m = raise e" "r = Inl e" | x where "m = return x" "f x = Some r"
  using assms by (auto simp: bind_res_def split: option.splits sum.splits)

subsection \<open>More fuel changes no result\<close>

lemma bind_res_mono:
  "bind_res m f = Some r \<Longrightarrow> (\<And>x. m = Some x \<Longrightarrow> m' = Some x) \<Longrightarrow>
   (\<And>x. m = return x \<Longrightarrow> f x = Some r \<Longrightarrow> f' x = Some r) \<Longrightarrow> bind_res m' f' = Some r"
  by (auto simp: bind_res_def split: option.splits sum.splits)

lemma bind1_mono:
  "bind_res m f = Some r \<Longrightarrow> (\<And>x. m = Some x \<Longrightarrow> m' = Some x) \<Longrightarrow> bind_res m' f = Some r"
  by (auto simp: bind_res_def split: option.splits sum.splits)

lemma bind2_mono:
  "bind_res m (\<lambda>(a, b, c). bind_res (g c) (h a b)) = Some r \<Longrightarrow>
   (\<And>x. m = Some x \<Longrightarrow> m' = Some x) \<Longrightarrow>
   (\<And>c x. g c = Some x \<Longrightarrow> g' c = Some x) \<Longrightarrow>
   bind_res m' (\<lambda>(a, b, c). bind_res (g' c) (h a b)) = Some r"
  by (auto simp: bind_res_def split: option.splits sum.splits)

lemma fuel_mono:
  "evaluate ops fuel e s = Some r \<Longrightarrow> fuel \<le> fuel' \<Longrightarrow> evaluate ops fuel' e s = Some r"
  "evaluate_exprs ops fuel es v t s = Some r \<Longrightarrow> fuel \<le> fuel' \<Longrightarrow>
     evaluate_exprs ops fuel' es v t s = Some r"
  "while_loop ops fuel n c b v s = Some r2 \<Longrightarrow> fuel \<le> fuel' \<Longrightarrow> n \<le> n' \<Longrightarrow>
     while_loop ops fuel' n' c b v s = Some r2"
proof (induction ops fuel e s and ops fuel es v t s and ops fuel n c b v s
    arbitrary: r and r and r2 n' rule: evaluate_evaluate_exprs_while_loop.induct)
  case (29 ops fuel condition body if_cond_value new_state)
  then show ?case by (cases n') (auto split: if_splits)
next
  case (30 ops fuel n condition body if_cond_value new_state)
  from "30.prems" obtain m where n': "n' = Suc m" "n \<le> m" by (cases n') auto
  show ?case
  proof (cases "truthy ops if_cond_value")
    case False
    with "30.prems" show ?thesis by (simp add: n')
  next
    case True
    with "30.prems" show ?thesis
      unfolding n'
      apply simp
      apply (erule bind_res_mono)
       apply (simp add: "30.IH"(1))
      apply (clarsimp)
      apply (erule bind_res_mono)
       apply (simp add: "30.IH"(2))
      apply (clarsimp simp: "30.IH"(3) n')
      done
  qed
next
  case (25 ops fuel condition body state)
  from "25.prems" show ?case
    apply simp
    apply (erule bind_res_mono)
     apply (simp add: "25.IH"(1))
    apply (clarsimp split: if_splits)
    apply (erule bind_res_mono)
     apply (rule "25.IH"(2))
    apply auto
    done
next
  case (18 ops fuel condition true false state)
  from "18.prems" show ?case
    apply simp
    apply (erule bind_res_mono)
     apply (simp add: "18.IH"(1))
    apply (auto split: if_splits simp: "18.IH")
    done
next
  case (28 ops fuel expr exprs variable_value variable_type new_state)
  from "28.prems" show ?case
    apply simp
    apply (erule bind_res_mono)
     apply (simp add: "28.IH"(1))
    apply (auto simp: "28.IH")
    done
qed (simp_all, ((erule bind2_mono | erule bind1_mono); simp)+)


subsection \<open>Evaluation keeps payloads and tags in agreement\<close>

lemma well_tagged_cases:
  "well_tagged v Unit \<longleftrightarrow> v = PyNone"
  "well_tagged v Integer \<longleftrightarrow> (\<exists>i. v = PyInt i)"
  "well_tagged v FloatingPoint \<longleftrightarrow> (\<exists>x. v = PyFloat x)"
  "well_tagged v String \<longleftrightarrow> (\<exists>s. v = PyStr s)"
  "well_tagged v Boolean \<longleftrightarrow> (\<exists>b. v = PyBool b)"
  by (cases v; auto)+

lemma get_value_well_tagged:
  "well_tagged_state s \<Longrightarrow> get_value s x = Some (v, t) \<Longrightarrow> well_tagged v t"
  by (induction s) (auto split: if_splits)

lemma bind1_well_tagged:
  assumes "bind_res m (\<lambda>(v, t, s1). k v t s1) = Some r"
    and "\<And>x. m = Some x \<Longrightarrow> well_tagged_result x"
    and "\<And>v t s1. \<lbrakk>well_tagged v t; well_tagged_state s1; k v t s1 = Some r\<rbrakk>
           \<Longrightarrow> well_tagged_result r"
  shows "well_tagged_result r"
  using assms(1)
proof (cases rule: bind_resE)
  case (1 e)
  with assms(2) [of "Inl e"] show ?thesis by simp
next
  case (2 x)
  obtain v t s1 where x: "x = (v, t, s1)" by (cases x) auto
  with 2 assms(2) [of "Inr x"] assms(3) [of v t s1] show ?thesis by simp
qed

lemma bind2_well_tagged:
  assumes "bind_res m (\<lambda>(lv, lt, s1). bind_res (g s1) (\<lambda>(rv, rt, s2). k lv lt rv rt s2)) = Some r"
    and "\<And>x. m = Some x \<Longrightarrow> well_tagged_result x"
    and "\<And>s x. \<lbrakk>g s = Some x; well_tagged_state s\<rbrakk> \<Longrightarrow> well_tagged_result x"
    and "\<And>lv lt rv rt s2. \<lbrakk>well_tagged lv lt; well_tagged rv rt; well_tagged_state s2;
            k lv lt rv rt s2 = Some r\<rbrakk> \<Longrightarrow> well_tagged_result r"
  shows "well_tagged_result r"
proof (rule bind1_well_tagged [OF assms(1) assms(2)])
  fix lv lt s1
  assume l: "well_tagged lv lt" "well_tagged_state s1"
    and r: "bind_res (g s1) (\<lambda>(rv, rt, s2). k lv lt rv rt s2) = Some r"
  show "well_tagged_result r"
    by (rule bind1_well_tagged [OF r]) (auto intro: assms(3) assms(4) l)
qed

lemma py_eq_well_tagged:
  "well_tagged lv t \<Longrightarrow> well_tagged rv t \<Longrightarrow> \<exists>b. py_eq ops lv rv = Inr b"
  by (cases lv; cases rv; auto)

lemma evaluate_well_tagged:
  "evaluate ops fuel e s = Some r \<Longrightarrow> well_tagged_state s \<Longrightarrow> well_tagged_result r"
  "evaluate_exprs ops fuel es v t s = Some r \<Longrightarrow> well_tagged v t \<Longrightarrow> well_tagged_state s \<Longrightarrow>
     well_tagged_result r"
  "while_loop ops fuel n c b v s = Some r2 \<Longrightarrow> well_tagged_state s \<Longrightarrow>
     r2 \<noteq> Inl HostError \<and> (\<forall>s'. r2 = Inr s' \<longrightarrow> well_tagged_state s')"
proof (induction ops fuel e s and ops fuel es v t s and ops fuel n c b v s
    arbitrary: r and r and r2 rule: evaluate_evaluate_exprs_while_loop.induct)
  case (9 ops fuel variable_name state)
  then show ?case
    by (auto split: option.splits dest: get_value_well_tagged)
next
  case (10 ops fuel variable_name "value" state)
  from "10.prems" show ?case
    apply simp
    apply (erule bind1_well_tagged)
     apply (simp add: "10.IH")
    apply (auto simp: set_value_def split: option.splits if_splits)
    done
next
  case (18 ops fuel condition true false state)
  from "18.prems" show ?case
    apply simp
    apply (erule bind1_well_tagged)
     apply (simp add: "18.IH"(1))
    apply (auto split: if_splits intro: "18.IH"(2) "18.IH"(3))
    done
next
  case (23 ops fuel left right state)
  from "23.prems" show ?case
    apply simp
    apply (erule bind2_well_tagged)
      apply (simp add: "23.IH"(1))
     apply (simp add: "23.IH"(2))
    subgoal for lv lt rv rt s2
      using py_eq_well_tagged [of lv lt rv ops]
      by (auto split: if_splits)
    done
next
  case (24 ops fuel left right state)
  from "24.prems" show ?case
    apply simp
    apply (erule bind2_well_tagged)
      apply (simp add: "24.IH"(1))
     apply (simp add: "24.IH"(2))
    subgoal for lv lt rv rt s2
      using py_eq_well_tagged [of lv lt rv ops]
      by (auto split: if_splits)
    done
next
  case (25 ops fuel condition body state)
  from "25.prems" show ?case
    apply simp
    apply (erule bind1_well_tagged)
     apply (simp add: "25.IH"(1))
    subgoal for v t s1
      using "25.IH"(2)
      by (fastforce split: if_splits elim!: bind_resE)
    done
next
  case (28 ops fuel expr exprs variable_value variable_type new_state)
  from "28.prems" show ?case
    apply simp
    apply (erule bind1_well_tagged)
     apply (simp add: "28.IH"(1))
    apply (auto intro: "28.IH"(2))
    done
next
  case (29 ops fuel condition body if_cond_value new_state)
  then show ?case by (auto split: if_splits)
next
  case (30 ops fuel n condition body if_cond_value new_state)
  show ?case
  proof (cases "truthy ops if_cond_value")
    case False
    with "30.prems" show ?thesis by auto
  next
    case True
    from "30.prems" True
    have ev: "bind_res (evaluate ops fuel body new_state) (\<lambda>(_, result_type, new_state).
        bind_res (evaluate ops fuel condition new_state) (\<lambda>(if_cond_value, _, new_state).
          while_loop ops fuel n condition body if_cond_value new_state)) = Some r2"
      by simp
    from ev show ?thesis
    proof (cases rule: bind_resE)
      case (1 e)
      with "30.IH"(1) [OF True, of "Inl e"] "30.prems" show ?thesis by auto
    next
      case (2 x)
      obtain bv bt s1 where x: "x = (bv, bt, s1)" by (cases x) auto
      from 2 x "30.IH"(1) [OF True, of "Inr x"] "30.prems"
      have s1: "well_tagged_state s1" by auto
      from 2 x have ev2: "bind_res (evaluate ops fuel condition s1) (\<lambda>(if_cond_value, _, new_state).
          while_loop ops fuel n condition body if_cond_value new_state) = Some r2" by simp
      from ev2 show ?thesis
      proof (cases rule: bind_resE)
        case (1 e)
        with "30.IH"(2) [OF True, of s1 "Inl e"] s1 show ?thesis by auto
      next
        case (2 y)
        obtain cv ct s2 where y: "y = (cv, ct, s2)" by (cases y) auto
        from 2 y "30.IH"(2) [OF True, of s1 "Inr y"] s1
        have s2: "well_tagged_state s2" by auto
        from 2 y have "while_loop ops fuel n condition body cv s2 = Some r2" by simp
        with "30.IH"(3) [OF True] s2 show ?thesis by blast
      qed
    qed
  qed
qed (simp_all,
    ((erule bind2_well_tagged | erule bind1_well_tagged);
     auto simp: well_tagged_cases py_and_def py_or_def py_gt_def py_ge_def
        split: if_splits ty.splits)+)


lemma run_stimpl_no_host_error:
  "run_stimpl ops fuel program \<noteq> raise HostError"
  using evaluate_well_tagged(1) [of ops fuel program EmptyState "Inl HostError"]
  by (auto simp: run_stimpl_def)

subsection \<open>The two loops\<close>

lemma evaluate_exprs_append:
  "evaluate_exprs ops fuel (es @ es') v t s =
     bind_res (evaluate_exprs ops fuel es v t s)
       (\<lambda>(v', t', s'). evaluate_exprs ops fuel es' v' t' s')"
proof (induction es arbitrary: v t s)
  case Nil
  show ?case by simp
next
  case (Cons e es)
  show ?case
  proof (cases "evaluate ops fuel e s")
    case None
    then show ?thesis by simp
  next
    case (Some r)
    then show ?thesis
      by (cases r) (auto simp: Cons.IH)
  qed
qed

lemma evaluate_exprs_start:
  "es \<noteq> [] \<Longrightarrow> evaluate_exprs ops fuel es v t s = evaluate_exprs ops fuel es v' t' s"
  by (cases es) auto

lemma while_loop_trace:
  "while_loop ops fuel n c b v s = return s' \<longleftrightarrow>
     (\<exists>tr. length tr \<le> n \<and> loop_trace ops fuel c b v s tr \<and> s' = final_state s tr)"
proof (induction n arbitrary: v s)
  case 0
  then show ?case by auto
next
  case (Suc n)
  show ?case
  proof (cases "truthy ops v")
    case False
    have nil: "\<And>tr. loop_trace ops fuel c b v s tr \<longleftrightarrow> tr = []"
      using False by (case_tac tr) auto
    have "while_loop ops fuel (Suc n) c b v s = return s"
      using False by simp
    then show ?thesis
      unfolding nil by auto
  next
    case True
    show ?thesis
    proof (cases "iteration ops fuel c b s")
      case None
      then have "while_loop ops fuel (Suc n) c b v s = None"
        using True by (auto simp: iteration_def bind_res_def split: option.splits sum.splits)
      moreover have "\<And>tr. \<not> loop_trace ops fuel c b v s tr"
        using None True by (case_tac tr) auto
      ultimately show ?thesis by simp
    next
      case (Some r)
      show ?thesis
      proof (cases r)
        case (Inl e)
        then have "while_loop ops fuel (Suc n) c b v s = raise e"
          using True Some by (auto simp: iteration_def bind_res_def split: option.splits sum.splits)
        moreover have "\<And>tr. \<not> loop_trace ops fuel c b v s tr"
          using Some Inl True by (case_tac tr) auto
        ultimately show ?thesis by simp
      next
        case (Inr x)
        obtain v' t' s1 where x: "x = (v', t', s1)" by (cases x) auto
        have step: "while_loop ops fuel (Suc n) c b v s = while_loop ops fuel n c b v' s1"
          using True Some Inr x
          by (auto simp: iteration_def bind_res_def split: option.splits sum.splits)
        have "(\<exists>tr. length tr \<le> Suc n \<and> loop_trace ops fuel c b v s tr \<and> s' = final_state s tr)
           \<longleftrightarrow> (\<exists>tr. length tr \<le> n \<and> loop_trace ops fuel c b v' s1 tr \<and> s' = final_state s1 tr)"
          (is "?L \<longleftrightarrow> ?R")
        proof
          assume ?L
          then obtain tr where tr: "length tr \<le> Suc n" "loop_trace ops fuel c b v s tr"
            "s' = final_state s tr" by blast
          from tr(2) True obtain tr' where "tr = x # tr'"
            using Some Inr by (cases tr) auto
          with tr x show ?R by auto
        next
          assume ?R
          then obtain tr where tr: "length tr \<le> n" "loop_trace ops fuel c b v' s1 tr"
            "s' = final_state s1 tr" by blast
          then have "length (x # tr) \<le> Suc n \<and> loop_trace ops fuel c b v s (x # tr) \<and>
            s' = final_state s (x # tr)"
            using True Some Inr x by auto
          then show ?L by blast
        qed
        with step Suc.IH show ?thesis by simp
      qed
    qed
  qed
qed

lemma get_value_bindings:
  "get_value s x = map_of (bindings s) x"
  by (induction s) auto

lemmas count_defs =
  count_cond_def count_body_def count_0_def count_1_def count_2_def exact_ops_def

section \<open>The While loop\<close>

text \<open>
  Claim C1. The evaluation of \<open>While c b\<close> returns exactly when it terminates normally:
  the first evaluation of the condition has the type \<open>Boolean\<close>, and the loop runs some
  passes (within the bound) until a condition value is false. What it returns is then
  the value \<^verbatim>\<open>False\<close> with the type \<open>Boolean\<close> and the environment that the last
  evaluation of the condition left, however many passes ran and whatever value and type
  the body produced. In the example the body last returned the integer 2.
\<close>

theorem while_returns_false:
  "evaluate ops fuel (While c b) s = return r \<longleftrightarrow>
   (\<exists>v0 s1 tr. evaluate ops fuel c s = return (v0, Boolean, s1) \<and>
       loop_trace ops fuel c b v0 s1 tr \<and> length tr \<le> fuel \<and>
       r = (PyBool False, Boolean, final_state s1 tr))"
proof
  assume ev: "evaluate ops fuel (While c b) s = return r"
  then obtain v0 t0 s1 where c: "evaluate ops fuel c s = return (v0, t0, s1)"
    by (auto simp: bind_res_def split: option.splits sum.splits)
  with ev have t0: "t0 = Boolean" by (auto split: if_splits)
  from ev c t0 obtain s2 where w: "while_loop ops fuel fuel c b v0 s1 = return s2"
    by (auto simp: bind_res_def split: option.splits sum.splits)
  with ev c t0 have r: "r = (PyBool False, Boolean, s2)" by auto
  from w obtain tr where "length tr \<le> fuel" "loop_trace ops fuel c b v0 s1 tr"
    "s2 = final_state s1 tr"
    unfolding while_loop_trace by blast
  with c t0 r show "\<exists>v0 s1 tr. evaluate ops fuel c s = return (v0, Boolean, s1) \<and>
       loop_trace ops fuel c b v0 s1 tr \<and> length tr \<le> fuel \<and>
       r = (PyBool False, Boolean, final_state s1 tr)" by blast
next
  assume "\<exists>v0 s1 tr. evaluate ops fuel c s = return (v0, Boolean, s1) \<and>
       loop_trace ops fuel c b v0 s1 tr \<and> length tr \<le> fuel \<and>
       r = (PyBool False, Boolean, final_state s1 tr)"
  then obtain v0 s1 tr where c: "evaluate ops fuel c s = return (v0, Boolean, s1)"
    and tr: "loop_trace ops fuel c b v0 s1 tr" "length tr \<le> fuel"
    and r: "r = (PyBool False, Boolean, final_state s1 tr)" by blast
  from tr have "while_loop ops fuel fuel c b v0 s1 = return (final_state s1 tr)"
    unfolding while_loop_trace by blast
  with c r show "evaluate ops fuel (While c b) s = return r" by simp
qed

theorem while_returns_false_witness:
  "evaluate exact_ops (Suc (Suc 0)) (While count_cond count_body) count_0 =
     return (PyBool False, Boolean, count_2) \<and>
   evaluate exact_ops (Suc (Suc 0)) count_body count_1 = return (PyInt 2, Integer, count_2)"
proof -
  let ?tr = "[(PyInt 1, Integer, count_1), (PyInt 0, Integer, count_2)]"
  have c: "evaluate exact_ops (Suc (Suc 0)) count_cond count_0 =
      return (PyBool True, Boolean, count_0)"
    by (simp add: count_defs)
  have tr: "loop_trace exact_ops (Suc (Suc 0)) count_cond count_body (PyBool True) count_0 ?tr"
    by (simp add: count_defs iteration_def set_value_def)
  have len: "length ?tr \<le> Suc (Suc 0)" by simp
  have fin: "(PyBool False, Boolean, count_2) = (PyBool False, Boolean, final_state count_0 ?tr)"
    by simp
  have body: "evaluate exact_ops (Suc (Suc 0)) count_body count_1 =
      return (PyInt 2, Integer, count_2)"
    by (simp add: count_defs set_value_def)
  have "\<exists>v0 s1 tr. evaluate exact_ops (Suc (Suc 0)) count_cond count_0 = return (v0, Boolean, s1) \<and>
      loop_trace exact_ops (Suc (Suc 0)) count_cond count_body v0 s1 tr \<and>
      length tr \<le> Suc (Suc 0) \<and>
      (PyBool False, Boolean, count_2) = (PyBool False, Boolean, final_state s1 tr)"
  proof (intro exI conjI)
    show "evaluate exact_ops (Suc (Suc 0)) count_cond count_0 =
        return (PyBool True, Boolean, count_0)" by (rule c)
    show "loop_trace exact_ops (Suc (Suc 0)) count_cond count_body (PyBool True) count_0 ?tr"
      by (rule tr)
    show "length ?tr \<le> Suc (Suc 0)" by (rule len)
    show "(PyBool False, Boolean, count_2) = (PyBool False, Boolean, final_state count_0 ?tr)"
      by (rule fin)
  qed
  then have "evaluate exact_ops (Suc (Suc 0)) (While count_cond count_body) count_0 =
      return (PyBool False, Boolean, count_2)"
    by (rule while_returns_false [THEN iffD2])
  with body show ?thesis by blast
qed

text \<open>
  Claim C9. Only the first evaluation of the condition is checked against \<open>Boolean\<close>: it
  raises the type error when its type is another one. The condition values of the later
  passes decide by their truth value alone, whatever their types are: a run of passes
  described by \<open>loop_trace\<close>, which constrains no type, makes the loop return, with no
  type error. In the example the condition has the type \<open>Integer\<close> after each pass; the
  loop goes on after the value 1 and ends after the value 0.
\<close>

theorem while_checks_first_condition_only:
  "(evaluate ops fuel c s = return (v0, t0, s1) \<and> t0 \<noteq> Boolean \<longrightarrow>
      evaluate ops fuel (While c b) s = raise InterpTypeError) \<and>
   (evaluate ops fuel c s = return (v0, Boolean, s1) \<and>
    loop_trace ops fuel c b v0 s1 tr \<and> length tr \<le> fuel \<longrightarrow>
      evaluate ops fuel (While c b) s = return (PyBool False, Boolean, final_state s1 tr))"
proof (intro conjI impI)
  assume "evaluate ops fuel c s = return (v0, t0, s1) \<and> t0 \<noteq> Boolean"
  then show "evaluate ops fuel (While c b) s = raise InterpTypeError" by simp
next
  assume a: "evaluate ops fuel c s = return (v0, Boolean, s1) \<and>
    loop_trace ops fuel c b v0 s1 tr \<and> length tr \<le> fuel"
  then have "while_loop ops fuel fuel c b v0 s1 = return (final_state s1 tr)"
    unfolding while_loop_trace by blast
  with a show "evaluate ops fuel (While c b) s = return (PyBool False, Boolean, final_state s1 tr)"
    by simp
qed

theorem while_checks_first_condition_only_witness:
  "evaluate exact_ops (Suc (Suc 0)) count_cond count_0 = return (PyBool True, Boolean, count_0) \<and>
   loop_trace exact_ops (Suc (Suc 0)) count_cond count_body (PyBool True) count_0
     [(PyInt 1, Integer, count_1), (PyInt 0, Integer, count_2)] \<and>
   evaluate exact_ops (Suc (Suc 0)) (While count_cond count_body) count_0 =
     return (PyBool False, Boolean, count_2) \<and>
   evaluate exact_ops (Suc (Suc 0)) (While (IntLiteral 1) count_body) count_0 =
     raise InterpTypeError"
proof -
  let ?tr = "[(PyInt 1, Integer, count_1), (PyInt 0, Integer, count_2)]"
  have c: "evaluate exact_ops (Suc (Suc 0)) count_cond count_0 =
      return (PyBool True, Boolean, count_0)"
    by (simp add: count_defs)
  have tr: "loop_trace exact_ops (Suc (Suc 0)) count_cond count_body (PyBool True) count_0 ?tr"
    by (simp add: count_defs iteration_def set_value_def)
  have n: "evaluate exact_ops (Suc (Suc 0)) (IntLiteral 1) count_0 =
      return (PyInt 1, Integer, count_0) \<and> Integer \<noteq> Boolean"
    by simp
  have len: "length ?tr \<le> Suc (Suc 0)" by simp
  from while_checks_first_condition_only
    [of exact_ops "Suc (Suc 0)" count_cond count_0 "PyBool True" Boolean count_0 count_body ?tr]
    c tr len
  have 1: "evaluate exact_ops (Suc (Suc 0)) (While count_cond count_body) count_0 =
     return (PyBool False, Boolean, count_2)" by simp
  from while_checks_first_condition_only
    [of exact_ops "Suc (Suc 0)" "IntLiteral 1" count_0 "PyInt 1" Integer count_0 count_body "[]"] n
  have 2: "evaluate exact_ops (Suc (Suc 0)) (While (IntLiteral 1) count_body) count_0 =
     raise InterpTypeError" by blast
  from c tr 1 2 show ?thesis by blast
qed

section \<open>Division\<close>

text \<open>
  Claim C2. \<open>Divide left right\<close> evaluates the left operand, then the right one in the
  environment the left one produced, and an error of either is the error of the division.
  The value of the right operand is compared with zero before the types are compared: when
  it equals zero the math error is raised, whatever the two types are, and only for a
  nonzero divisor do differing types raise the type error. Dividing an integer literal by
  the integer literal 0 raises the math error for every dividend.
\<close>

theorem divide_zero_check_first:
  "(evaluate ops fuel left state = raise e \<longrightarrow>
      evaluate ops fuel (Divide left right) state = raise e) \<and>
   (evaluate ops fuel left state = return (lv, lt, s1) \<longrightarrow>
      (evaluate ops fuel right s1 = raise e \<longrightarrow>
         evaluate ops fuel (Divide left right) state = raise e) \<and>
      (evaluate ops fuel right s1 = return (rv, rt, s2) \<and> eq_zero ops rv \<longrightarrow>
         evaluate ops fuel (Divide left right) state = raise InterpMathError) \<and>
      (evaluate ops fuel right s1 = return (rv, rt, s2) \<and> \<not> eq_zero ops rv \<and> lt \<noteq> rt \<longrightarrow>
         evaluate ops fuel (Divide left right) state = raise InterpTypeError)) \<and>
   evaluate ops fuel (Divide (IntLiteral a) (IntLiteral 0)) state = raise InterpMathError"
  by simp

theorem divide_zero_check_first_witness:
  "evaluate exact_ops 0 (Divide (StringLiteral ''a'') (IntLiteral 0)) EmptyState =
     raise InterpMathError \<and>
   evaluate exact_ops 0 (Divide (BooleanLiteral True) (BooleanLiteral False)) EmptyState =
     raise InterpMathError \<and>
   evaluate exact_ops 0 (Divide (StringLiteral ''a'') (IntLiteral 1)) EmptyState =
     raise InterpTypeError \<and>
   evaluate exact_ops 0 (Divide (IntLiteral 1) (Variable ''x'')) EmptyState =
     raise InterpSyntaxError \<and>
   evaluate exact_ops 0 (Divide (Variable ''x'') (IntLiteral 0)) EmptyState =
     raise InterpSyntaxError"
proof -
  have l: "evaluate exact_ops 0 (StringLiteral ''a'') EmptyState =
      return (PyStr ''a'', String, EmptyState)" by simp
  have r0: "evaluate exact_ops 0 (IntLiteral 0) EmptyState =
      return (PyInt 0, Integer, EmptyState) \<and> eq_zero exact_ops (PyInt 0)" by simp
  have r1: "evaluate exact_ops 0 (IntLiteral 1) EmptyState =
      return (PyInt 1, Integer, EmptyState) \<and> \<not> eq_zero exact_ops (PyInt 1) \<and> String \<noteq> Integer"
    by simp
  have b: "evaluate exact_ops 0 (BooleanLiteral True) EmptyState =
      return (PyBool True, Boolean, EmptyState)" by simp
  have bf: "evaluate exact_ops 0 (BooleanLiteral False) EmptyState =
      return (PyBool False, Boolean, EmptyState) \<and> eq_zero exact_ops (PyBool False)" by simp
  have i: "evaluate exact_ops 0 (IntLiteral 1) EmptyState =
      return (PyInt 1, Integer, EmptyState)" by simp
  have x: "evaluate exact_ops 0 (Variable ''x'') EmptyState = raise InterpSyntaxError" by simp
  from divide_zero_check_first [of exact_ops 0 "StringLiteral ''a''" EmptyState _
      "IntLiteral 0" "PyStr ''a''" String EmptyState "PyInt 0" Integer EmptyState] l r0
  have 1: "evaluate exact_ops 0 (Divide (StringLiteral ''a'') (IntLiteral 0)) EmptyState =
     raise InterpMathError" by blast
  from divide_zero_check_first [of exact_ops 0 "BooleanLiteral True" EmptyState _
      "BooleanLiteral False" "PyBool True" Boolean EmptyState "PyBool False" Boolean EmptyState] b bf
  have 2: "evaluate exact_ops 0 (Divide (BooleanLiteral True) (BooleanLiteral False)) EmptyState =
     raise InterpMathError" by blast
  from divide_zero_check_first [of exact_ops 0 "StringLiteral ''a''" EmptyState _
      "IntLiteral 1" "PyStr ''a''" String EmptyState "PyInt 1" Integer EmptyState] l r1
  have 3: "evaluate exact_ops 0 (Divide (StringLiteral ''a'') (IntLiteral 1)) EmptyState =
     raise InterpTypeError" by blast
  from divide_zero_check_first [of exact_ops 0 "IntLiteral 1" EmptyState InterpSyntaxError
      "Variable ''x''" "PyInt 1" Integer EmptyState] i x
  have 4: "evaluate exact_ops 0 (Divide (IntLiteral 1) (Variable ''x'')) EmptyState =
     raise InterpSyntaxError" by blast
  from divide_zero_check_first [of exact_ops 0 "Variable ''x''" EmptyState InterpSyntaxError
      "IntLiteral 0"] x
  have 5: "evaluate exact_ops 0 (Divide (Variable ''x'') (IntLiteral 0)) EmptyState =
     raise InterpSyntaxError" by blast
  from 1 2 3 4 5 show ?thesis by blast
qed

text \<open>
  Claim C8. When the operands of \<open>Divide\<close> evaluate to integers \<open>a\<close> and \<open>b \<noteq> 0\<close> of
  the type \<open>Integer\<close>, the division returns the floor of the quotient \<open>a / b\<close> with the
  type \<open>Integer\<close> and the environment the right operand left; this holds for any operand
  expressions, and so for the literals \<open>a\<close> and \<open>b\<close>: dividing \<open>- 7\<close> by \<open>2\<close> returns
  \<open>- 4\<close>. When the operands evaluate to floats of the type \<open>FloatingPoint\<close> and the
  divisor is not zero, the division returns the result of the float division \<^verbatim>\<open>/\<close>
  of the two payloads with the type \<open>FloatingPoint\<close>, again for any operand expressions.
\<close>

theorem divide_int_floor:
  "(b \<noteq> 0 \<longrightarrow> evaluate ops fuel (Divide (IntLiteral a) (IntLiteral b)) state =
      return (PyInt \<lfloor>real_of_int a / real_of_int b\<rfloor>, Integer, state)) \<and>
   evaluate ops fuel (Divide (IntLiteral (- 7)) (IntLiteral 2)) state =
      return (PyInt (- 4), Integer, state) \<and>
   (\<not> fl_is_zero ops y \<longrightarrow>
      evaluate ops fuel (Divide (FloatingPointLiteral x) (FloatingPointLiteral y)) state =
      return (PyFloat (fl_div ops x y), FloatingPoint, state)) \<and>
   (evaluate ops fuel left state = return (PyInt a, Integer, s1) \<and>
    evaluate ops fuel right s1 = return (PyInt b, Integer, s2) \<and> b \<noteq> 0 \<longrightarrow>
      evaluate ops fuel (Divide left right) state =
      return (PyInt \<lfloor>real_of_int a / real_of_int b\<rfloor>, Integer, s2)) \<and>
   (evaluate ops fuel left state = return (PyFloat x, FloatingPoint, s1) \<and>
    evaluate ops fuel right s1 = return (PyFloat y, FloatingPoint, s2) \<and> \<not> fl_is_zero ops y \<longrightarrow>
      evaluate ops fuel (Divide left right) state =
      return (PyFloat (fl_div ops x y), FloatingPoint, s2))"
  by (simp add: floor_divide_of_int_eq)

theorem divide_int_floor_witness:
  "evaluate exact_ops 0 (Divide (IntLiteral 7) (IntLiteral (- 2))) EmptyState =
     return (PyInt (- 4), Integer, EmptyState) \<and>
   evaluate exact_ops 0 (Divide (FloatingPointLiteral 7) (FloatingPointLiteral (- 2))) EmptyState =
     return (PyFloat (- 7 / 2), FloatingPoint, EmptyState) \<and>
   evaluate exact_ops 0 (Divide (Variable ''n'') (Assign ''d'' (IntLiteral 2)))
       (State ''n'' (PyInt (- 7)) Integer EmptyState) =
     return (PyInt (- 4), Integer,
       State ''d'' (PyInt 2) Integer (State ''n'' (PyInt (- 7)) Integer EmptyState)) \<and>
   evaluate exact_ops 0 (Divide (Variable ''x'') (FloatingPointLiteral 2))
       (State ''x'' (PyFloat 7) FloatingPoint EmptyState) =
     return (PyFloat (7 / 2), FloatingPoint, State ''x'' (PyFloat 7) FloatingPoint EmptyState)"
proof -
  let ?n = "State ''n'' (PyInt (- 7)) Integer EmptyState :: rat state"
  let ?d = "State ''d'' (PyInt 2) Integer ?n"
  let ?x = "State ''x'' (PyFloat 7) FloatingPoint EmptyState :: rat state"
  have b: "(- 2 :: int) \<noteq> 0" by simp
  have y: "\<not> fl_is_zero exact_ops (- 2)" by (simp add: exact_ops_def)
  have f: "\<lfloor>real_of_int 7 / real_of_int (- 2)\<rfloor> = - 4"
    by (simp add: floor_divide_of_int_eq [where ?'a = real, of 7 "- 2", simplified])
  have d: "fl_div exact_ops 7 (- 2) = - 7 / 2" by (simp add: exact_ops_def)
  from divide_int_floor [where b = "- 2" and ops = exact_ops and fuel = 0 and a = 7
      and state = EmptyState and y = "- 2" and x = 7] b y f d
  have 1: "evaluate exact_ops 0 (Divide (IntLiteral 7) (IntLiteral (- 2))) EmptyState =
     return (PyInt (- 4), Integer, EmptyState) \<and>
   evaluate exact_ops 0 (Divide (FloatingPointLiteral 7) (FloatingPointLiteral (- 2))) EmptyState =
     return (PyFloat (- 7 / 2), FloatingPoint, EmptyState)"
    by simp
  have ln: "evaluate exact_ops 0 (Variable ''n'') ?n = return (PyInt (- 7), Integer, ?n)"
    by simp
  have rn: "evaluate exact_ops 0 (Assign ''d'' (IntLiteral 2)) ?n = return (PyInt 2, Integer, ?d)"
    by (simp add: set_value_def)
  have b2: "(2 :: int) \<noteq> 0" by simp
  have f2: "\<lfloor>real_of_int (- 7) / real_of_int 2\<rfloor> = - 4"
    by (simp add: floor_divide_of_int_eq [where ?'a = real, of "- 7" 2, simplified])
  from divide_int_floor [where ops = exact_ops and fuel = 0 and left = "Variable ''n''"
      and right = "Assign ''d'' (IntLiteral 2)" and state = ?n and a = "- 7" and b = 2
      and ?s1.0 = ?n and ?s2.0 = ?d] ln rn b2 f2
  have 2: "evaluate exact_ops 0 (Divide (Variable ''n'') (Assign ''d'' (IntLiteral 2))) ?n =
     return (PyInt (- 4), Integer, ?d)"
    by simp
  have lx: "evaluate exact_ops 0 (Variable ''x'') ?x = return (PyFloat 7, FloatingPoint, ?x)"
    by simp
  have rx: "evaluate exact_ops 0 (FloatingPointLiteral 2) ?x = return (PyFloat 2, FloatingPoint, ?x)"
    by simp
  have y2: "\<not> fl_is_zero exact_ops 2" by (simp add: exact_ops_def)
  have d2: "fl_div exact_ops 7 2 = 7 / 2" by (simp add: exact_ops_def)
  from divide_int_floor [where ops = exact_ops and fuel = 0 and left = "Variable ''x''"
      and right = "FloatingPointLiteral 2" and state = ?x and x = 7 and y = 2
      and ?s1.0 = ?x and ?s2.0 = ?x] lx rx y2 d2
  have 3: "evaluate exact_ops 0 (Divide (Variable ''x'') (FloatingPointLiteral 2)) ?x =
     return (PyFloat (7 / 2), FloatingPoint, ?x)"
    by simp
  from 1 2 3 show ?thesis by blast
qed

text \<open>
  Claim C10. The payload of \<open>BooleanLiteral False\<close> equals zero, so dividing any
  expression that evaluates without error by \<open>BooleanLiteral False\<close> raises the math error,
  not a type error.
\<close>

theorem divide_by_false:
  "evaluate ops fuel e state = return r \<Longrightarrow>
   evaluate ops fuel (Divide e (BooleanLiteral False)) state = raise InterpMathError"
  by (cases r) simp

theorem divide_by_false_witness:
  "evaluate exact_ops 0 (StringLiteral ''a'') EmptyState = return (PyStr ''a'', String, EmptyState) \<and>
   evaluate exact_ops 0 (Divide (StringLiteral ''a'') (BooleanLiteral False)) EmptyState =
     raise InterpMathError"
proof -
  have h: "evaluate exact_ops 0 (StringLiteral ''a'') EmptyState =
      return (PyStr ''a'', String, EmptyState)" by simp
  from divide_by_false [OF h] h show ?thesis by blast
qed

section \<open>Comparisons and the logical operators\<close>

text \<open>
  Claim C3. When both operands of a comparison evaluate to the type \<open>Unit\<close>, whatever
  their payloads and the environment, \<open>Lt\<close> and \<open>Gt\<close> return false, \<open>Lte\<close> and
  \<open>Gte\<close> return true, \<open>Eq\<close> returns true and \<open>Ne\<close> returns false; and whatever a
  comparison returns has the type \<open>Boolean\<close>.
\<close>

theorem comparisons_on_unit:
  "(evaluate ops fuel left state = return (lv, Unit, s1) \<and>
    evaluate ops fuel right s1 = return (rv, Unit, s2) \<longrightarrow>
      evaluate ops fuel (Lt left right) state = return (PyBool False, Boolean, s2) \<and>
      evaluate ops fuel (Lte left right) state = return (PyBool True, Boolean, s2) \<and>
      evaluate ops fuel (Gt left right) state = return (PyBool False, Boolean, s2) \<and>
      evaluate ops fuel (Gte left right) state = return (PyBool True, Boolean, s2) \<and>
      evaluate ops fuel (Eq left right) state = return (PyBool True, Boolean, s2) \<and>
      evaluate ops fuel (Ne left right) state = return (PyBool False, Boolean, s2)) \<and>
   (\<forall>cmp \<in> {Lt, Lte, Gt, Gte, Eq, Ne}.
      evaluate ops fuel (cmp left right) state = return (v, t, s') \<longrightarrow> t = Boolean)"
proof (intro conjI impI ballI)
  fix cmp :: "'a expr \<Rightarrow> 'a expr \<Rightarrow> 'a expr"
  assume cmp: "cmp \<in> {Lt, Lte, Gt, Gte, Eq, Ne}"
    and ev: "evaluate ops fuel (cmp left right) state = return (v, t, s')"
  from ev obtain lv lt s1 where l: "evaluate ops fuel left state = return (lv, lt, s1)"
    using cmp by (auto simp: bind_res_def split: option.splits sum.splits)
  from ev l obtain rv rt s2 where r: "evaluate ops fuel right s1 = return (rv, rt, s2)"
    using cmp by (auto simp: bind_res_def split: option.splits sum.splits)
  from ev l r cmp show "t = Boolean"
    by (auto simp: lift_res_def bind_res_def split: if_splits ty.splits sum.splits)
qed simp_all

theorem comparisons_on_unit_witness:
  "evaluate exact_ops 0 (Variable ''u'') (State ''u'' (PyInt 3) Unit EmptyState) =
     return (PyInt 3, Unit, State ''u'' (PyInt 3) Unit EmptyState) \<and>
   evaluate exact_ops 0 (Lt (Variable ''u'') Ren) (State ''u'' (PyInt 3) Unit EmptyState) =
     return (PyBool False, Boolean, State ''u'' (PyInt 3) Unit EmptyState) \<and>
   evaluate exact_ops 0 (Lte (Variable ''u'') Ren) (State ''u'' (PyInt 3) Unit EmptyState) =
     return (PyBool True, Boolean, State ''u'' (PyInt 3) Unit EmptyState) \<and>
   evaluate exact_ops 0 (Gt (Variable ''u'') Ren) (State ''u'' (PyInt 3) Unit EmptyState) =
     return (PyBool False, Boolean, State ''u'' (PyInt 3) Unit EmptyState) \<and>
   evaluate exact_ops 0 (Gte (Variable ''u'') Ren) (State ''u'' (PyInt 3) Unit EmptyState) =
     return (PyBool True, Boolean, State ''u'' (PyInt 3) Unit EmptyState) \<and>
   evaluate exact_ops 0 (Eq (Variable ''u'') Ren) (State ''u'' (PyInt 3) Unit EmptyState) =
     return (PyBool True, Boolean, State ''u'' (PyInt 3) Unit EmptyState) \<and>
   evaluate exact_ops 0 (Ne (Variable ''u'') Ren) (State ''u'' (PyInt 3) Unit EmptyState) =
     return (PyBool False, Boolean, State ''u'' (PyInt 3) Unit EmptyState) \<and>
   evaluate exact_ops 0 (Lt (IntLiteral 1) (IntLiteral 2)) EmptyState =
     return (PyBool True, Boolean, EmptyState)"
proof -
  let ?s = "State ''u'' (PyInt 3) Unit EmptyState :: rat state"
  have l: "evaluate exact_ops 0 (Variable ''u'') ?s = return (PyInt 3, Unit, ?s)" by simp
  have r: "evaluate exact_ops 0 Ren ?s = return (PyNone, Unit, ?s)" by simp
  have c: "evaluate exact_ops 0 (Lt (IntLiteral 1) (IntLiteral 2)) EmptyState =
     return (PyBool True, Boolean, EmptyState)" by simp
  have m: "Lt \<in> {Lt, Lte, Gt, Gte, Eq, Ne :: rat expr \<Rightarrow> rat expr \<Rightarrow> rat expr}" by simp
  note u = comparisons_on_unit [of exact_ops 0 "Variable ''u''" ?s "PyInt 3" ?s Ren PyNone ?s]
  note b = comparisons_on_unit [of exact_ops 0 "IntLiteral 1" EmptyState _ _ "IntLiteral 2" _ _
      "PyBool True" Boolean EmptyState, THEN conjunct2, THEN bspec, OF m]
  from b c have "Boolean = Boolean" by blast
  with u l r c show ?thesis by blast
qed

text \<open>
  Claim C4. \<open>And\<close> and \<open>Or\<close> evaluate the right operand in the environment the left
  operand produced, whatever the left value is: when the right operand raises an error or
  does not return, so does the operation. When both return, the operation raises the type
  error unless both types are \<open>Boolean\<close>, and otherwise returns the conjunction or
  disjunction of the payloads. \<open>And\<close> of \<open>BooleanLiteral False\<close> and the division of 1 by 0
  raises the math error.
\<close>

theorem and_or_evaluate_both:
  "(evaluate ops fuel left state = return (lv, lt, s1) \<longrightarrow>
     (evaluate ops fuel right s1 = None \<longrightarrow>
        evaluate ops fuel (And left right) state = None \<and>
        evaluate ops fuel (Or left right) state = None) \<and>
     (evaluate ops fuel right s1 = raise e \<longrightarrow>
        evaluate ops fuel (And left right) state = raise e \<and>
        evaluate ops fuel (Or left right) state = raise e) \<and>
     (evaluate ops fuel right s1 = return (rv, rt, s2) \<and> (lt \<noteq> rt \<or> lt \<noteq> Boolean) \<longrightarrow>
        evaluate ops fuel (And left right) state = raise InterpTypeError \<and>
        evaluate ops fuel (Or left right) state = raise InterpTypeError) \<and>
     (evaluate ops fuel right s1 = return (rv, Boolean, s2) \<and> lt = Boolean \<longrightarrow>
        evaluate ops fuel (And left right) state = return (py_and ops lv rv, Boolean, s2) \<and>
        evaluate ops fuel (Or left right) state = return (py_or ops lv rv, Boolean, s2))) \<and>
   py_and ops (PyBool p) (PyBool q) = PyBool (p \<and> q) \<and>
   py_or ops (PyBool p) (PyBool q) = PyBool (p \<or> q) \<and>
   evaluate ops fuel (And (BooleanLiteral False) (Divide (IntLiteral 1) (IntLiteral 0))) state =
     raise InterpMathError"
  by (auto simp: py_and_def py_or_def split: ty.splits)

theorem and_or_evaluate_both_witness:
  "evaluate exact_ops 0 (Or (BooleanLiteral True) (Divide (IntLiteral 1) (IntLiteral 0))) EmptyState =
     raise InterpMathError \<and>
   evaluate exact_ops 0 (And (BooleanLiteral False) (Assign ''x'' (BooleanLiteral True))) EmptyState =
     return (PyBool False, Boolean, State ''x'' (PyBool True) Boolean EmptyState) \<and>
   evaluate exact_ops 0 (And (BooleanLiteral False) (IntLiteral 1)) EmptyState =
     raise InterpTypeError \<and>
   evaluate exact_ops 0 (Or (BooleanLiteral True) (While (BooleanLiteral True) Ren)) EmptyState = None"
proof -
  have l: "evaluate exact_ops 0 (BooleanLiteral False) EmptyState =
     return (PyBool False, Boolean, EmptyState)" by simp
  have l': "evaluate exact_ops 0 (BooleanLiteral True) EmptyState =
     return (PyBool True, Boolean, EmptyState)" by simp
  have d: "evaluate exact_ops 0 (Divide (IntLiteral 1) (IntLiteral 0)) EmptyState =
     raise InterpMathError" by simp
  have a: "evaluate exact_ops 0 (Assign ''x'' (BooleanLiteral True)) EmptyState =
     return (PyBool True, Boolean, State ''x'' (PyBool True) Boolean EmptyState) \<and>
     Boolean = Boolean" by (simp add: set_value_def)
  have i: "evaluate exact_ops 0 (IntLiteral 1) EmptyState = return (PyInt 1, Integer, EmptyState)
     \<and> (Boolean \<noteq> Integer \<or> Boolean \<noteq> Boolean)" by simp
  have w: "evaluate exact_ops 0 (While (BooleanLiteral True) Ren) EmptyState = None" by simp
  have p: "py_and exact_ops (PyBool False) (PyBool True) = PyBool False"
    by (simp add: py_and_def)
  from and_or_evaluate_both [of exact_ops 0 "BooleanLiteral True" EmptyState "PyBool True" Boolean
      EmptyState "Divide (IntLiteral 1) (IntLiteral 0)" InterpMathError] l' d
  have 1: "evaluate exact_ops 0 (Or (BooleanLiteral True) (Divide (IntLiteral 1) (IntLiteral 0)))
     EmptyState = raise InterpMathError" by blast
  from and_or_evaluate_both [of exact_ops 0 "BooleanLiteral False" EmptyState "PyBool False" Boolean
      EmptyState "Assign ''x'' (BooleanLiteral True)" _ "PyBool True" Boolean
      "State ''x'' (PyBool True) Boolean EmptyState"] l a p
  have 2: "evaluate exact_ops 0 (And (BooleanLiteral False) (Assign ''x'' (BooleanLiteral True)))
     EmptyState = return (PyBool False, Boolean, State ''x'' (PyBool True) Boolean EmptyState)"
    by simp
  from and_or_evaluate_both [of exact_ops 0 "BooleanLiteral False" EmptyState "PyBool False" Boolean
      EmptyState "IntLiteral 1" _ "PyInt 1" Integer EmptyState] l i
  have 3: "evaluate exact_ops 0 (And (BooleanLiteral False) (IntLiteral 1)) EmptyState =
     raise InterpTypeError" by blast
  from and_or_evaluate_both [of exact_ops 0 "BooleanLiteral True" EmptyState "PyBool True" Boolean
      EmptyState "While (BooleanLiteral True) Ren"] l' w
  have 4: "evaluate exact_ops 0 (Or (BooleanLiteral True) (While (BooleanLiteral True) Ren))
     EmptyState = None" by blast
  from 1 2 3 4 show ?thesis by blast
qed

section \<open>Variables, assignment and sequences\<close>

text \<open>
  Claim C5. \<open>Assign x e\<close> first evaluates \<open>e\<close> in the incoming environment; an error
  of \<open>e\<close> is the error of the assignment. With the result \<open>(v, t, s1)\<close>, the binding of
  \<open>x\<close> in \<open>s1\<close> is looked up: a binding of another type raises the type error; no binding,
  or a binding of the type \<open>t\<close>, returns \<open>(v, t)\<close> and \<open>s1\<close> extended by a new head binding
  of \<open>x\<close> to \<open>(v, t)\<close>, which is what a lookup of \<open>x\<close> then finds.
\<close>

theorem assign_binds_or_rejects:
  "(evaluate ops fuel e s = raise err \<longrightarrow> evaluate ops fuel (Assign x e) s = raise err) \<and>
   (evaluate ops fuel e s = return (v, t, s1) \<longrightarrow>
      (get_value s1 x = Some (v0, t0) \<and> t0 \<noteq> t \<longrightarrow>
         evaluate ops fuel (Assign x e) s = raise InterpTypeError) \<and>
      (get_value s1 x = None \<or> get_value s1 x = Some (v0, t) \<longrightarrow>
         evaluate ops fuel (Assign x e) s = return (v, t, set_value s1 x v t))) \<and>
   bindings (set_value s1 x v t) = (x, v, t) # bindings s1 \<and>
   get_value (set_value s1 x v t) x = Some (v, t)"
  by (auto simp: set_value_def)

theorem assign_binds_or_rejects_witness:
  "evaluate exact_ops 0 (Assign ''x'' (IntLiteral 5)) EmptyState =
     return (PyInt 5, Integer, State ''x'' (PyInt 5) Integer EmptyState) \<and>
   evaluate exact_ops 0 (Assign ''x'' (IntLiteral 5)) (State ''x'' (PyInt 1) Integer EmptyState) =
     return (PyInt 5, Integer, State ''x'' (PyInt 5) Integer (State ''x'' (PyInt 1) Integer EmptyState)) \<and>
   evaluate exact_ops 0 (Assign ''x'' (IntLiteral 5)) (State ''x'' (PyBool True) Boolean EmptyState) =
     raise InterpTypeError \<and>
   evaluate exact_ops 0 (Assign ''x'' (Variable ''y'')) EmptyState = raise InterpSyntaxError"
proof -
  let ?i = "State ''x'' (PyInt 1) Integer EmptyState :: rat state"
  let ?b = "State ''x'' (PyBool True) Boolean EmptyState :: rat state"
  have e: "evaluate exact_ops 0 (IntLiteral 5) s = return (PyInt 5, Integer, s)" for s by simp
  have y: "evaluate exact_ops 0 (Variable ''y'') EmptyState = raise InterpSyntaxError" by simp
  have g0: "get_value (EmptyState :: rat state) ''x'' = None" by simp
  have gi: "get_value ?i ''x'' = Some (PyInt 1, Integer)" by simp
  have gb: "get_value ?b ''x'' = Some (PyBool True, Boolean) \<and> Boolean \<noteq> Integer" by simp
  from assign_binds_or_rejects [of exact_ops 0 "IntLiteral 5" EmptyState _ "''x''" "PyInt 5" Integer
      EmptyState] e g0
  have 1: "evaluate exact_ops 0 (Assign ''x'' (IntLiteral 5)) EmptyState =
     return (PyInt 5, Integer, State ''x'' (PyInt 5) Integer EmptyState)"
    by (simp add: set_value_def)
  from assign_binds_or_rejects [of exact_ops 0 "IntLiteral 5" ?i _ "''x''" "PyInt 5" Integer
      ?i "PyInt 1"] e gi
  have 2: "evaluate exact_ops 0 (Assign ''x'' (IntLiteral 5)) ?i =
     return (PyInt 5, Integer, State ''x'' (PyInt 5) Integer ?i)"
    by (simp add: set_value_def)
  from assign_binds_or_rejects [of exact_ops 0 "IntLiteral 5" ?b _ "''x''" "PyInt 5" Integer
      ?b "PyBool True" Boolean] e gb
  have 3: "evaluate exact_ops 0 (Assign ''x'' (IntLiteral 5)) ?b = raise InterpTypeError"
    by blast
  from assign_binds_or_rejects [of exact_ops 0 "Variable ''y''" EmptyState InterpSyntaxError "''x''"] y
  have 4: "evaluate exact_ops 0 (Assign ''x'' (Variable ''y'')) EmptyState = raise InterpSyntaxError"
    by blast
  from 1 2 3 4 show ?thesis by blast
qed

text \<open>
  Claim C6. \<open>Variable x\<close> looks \<open>x\<close> up from the most recent binding on. When no
  binding of the chain has the name \<open>x\<close>, the syntax error is raised. Otherwise the value and
  type of the most recent binding of \<open>x\<close> (the one with no binding of \<open>x\<close> before it) are
  returned, with the environment unchanged.
\<close>

theorem variable_lookup:
  "(x \<notin> fst ` set (bindings s) \<longrightarrow>
      get_value s x = None \<and> evaluate ops fuel (Variable x) s = raise InterpSyntaxError) \<and>
   (bindings s = recent @ (x, v, t) # older \<and> x \<notin> fst ` set recent \<longrightarrow>
      get_value s x = Some (v, t) \<and> evaluate ops fuel (Variable x) s = return (v, t, s))"
proof (intro conjI impI)
  assume "x \<notin> fst ` set (bindings s)"
  then show "get_value s x = None"
    by (simp add: get_value_bindings map_of_eq_None_iff)
  then show "evaluate ops fuel (Variable x) s = raise InterpSyntaxError" by simp
next
  assume a: "bindings s = recent @ (x, v, t) # older \<and> x \<notin> fst ` set recent"
  then have "map_of (bindings s) x = Some (v, t)"
    by (simp add: map_add_Some_iff map_of_eq_None_iff)
  then show "get_value s x = Some (v, t)" by (simp add: get_value_bindings)
  then show "evaluate ops fuel (Variable x) s = return (v, t, s)" by simp
qed

theorem variable_lookup_witness:
  "evaluate exact_ops 0 (Variable ''x'')
     (State ''y'' (PyStr ''a'') String (State ''x'' (PyInt 2) Integer
        (State ''x'' (PyBool True) Boolean EmptyState))) =
     return (PyInt 2, Integer,
       State ''y'' (PyStr ''a'') String (State ''x'' (PyInt 2) Integer
        (State ''x'' (PyBool True) Boolean EmptyState))) \<and>
   evaluate exact_ops 0 (Variable ''z'')
     (State ''y'' (PyStr ''a'') String (State ''x'' (PyInt 2) Integer
        (State ''x'' (PyBool True) Boolean EmptyState))) = raise InterpSyntaxError"
proof -
  let ?s = "State ''y'' (PyStr ''a'') String (State ''x'' (PyInt 2) Integer
        (State ''x'' (PyBool True) Boolean EmptyState)) :: rat state"
  have b: "bindings ?s = [(''y'', PyStr ''a'', String)] @ (''x'', PyInt 2, Integer) #
      [(''x'', PyBool True, Boolean)] \<and> ''x'' \<notin> fst ` set [(''y'', PyStr ''a'' :: rat val, String)]"
    by simp
  have z: "''z'' \<notin> fst ` set (bindings ?s)" by simp
  from variable_lookup [of "''x''" ?s exact_ops 0 "[(''y'', PyStr ''a'', String)]" "PyInt 2" Integer
      "[(''x'', PyBool True, Boolean)]"] b
  have 1: "evaluate exact_ops 0 (Variable ''x'') ?s = return (PyInt 2, Integer, ?s)" by blast
  from variable_lookup [of "''z''" ?s exact_ops 0] z
  have 2: "evaluate exact_ops 0 (Variable ''z'') ?s = raise InterpSyntaxError" by blast
  from 1 2 show ?thesis by blast
qed

text \<open>
  Claim C7. \<open>Sequence\<close> and \<open>Program\<close> evaluate alike. The empty list returns
  \<open>(None, Unit)\<close> and the incoming environment. A list evaluates its expressions from left
  to right, each in the environment the previous one produced; the result is the value,
  type and environment that the last expression returned, so the bindings made on the way
  are still there afterwards.
\<close>

theorem sequence_threads_environment:
  "evaluate ops fuel (Sequence []) s = return (PyNone, Unit, s) \<and>
   evaluate ops fuel (Sequence (es @ [e])) s =
     bind_res (evaluate ops fuel (Sequence es) s) (\<lambda>(v1, t1, s1). evaluate ops fuel e s1) \<and>
   (es \<noteq> [] \<longrightarrow> evaluate ops fuel (Sequence (e # es)) s =
     bind_res (evaluate ops fuel e s) (\<lambda>(v1, t1, s1). evaluate ops fuel (Sequence es) s1)) \<and>
   evaluate ops fuel (Program es) s = evaluate ops fuel (Sequence es) s"
proof (intro conjI impI)
  show "evaluate ops fuel (Sequence []) s = return (PyNone, Unit, s)" by simp
next
  have "evaluate_exprs ops fuel [e] v t s' = evaluate ops fuel e s'" for v t s'
    by (auto simp: bind_res_def split: option.splits sum.splits)
  then show "evaluate ops fuel (Sequence (es @ [e])) s =
     bind_res (evaluate ops fuel (Sequence es) s) (\<lambda>(v1, t1, s1). evaluate ops fuel e s1)"
    by (simp add: evaluate_exprs_append del: evaluate_exprs.simps)
next
  assume "es \<noteq> []"
  then have "evaluate_exprs ops fuel es v t s' = evaluate_exprs ops fuel es PyNone Unit s'" for v t s'
    by (rule evaluate_exprs_start)
  then show "evaluate ops fuel (Sequence (e # es)) s =
     bind_res (evaluate ops fuel e s) (\<lambda>(v1, t1, s1). evaluate ops fuel (Sequence es) s1)"
    by (auto simp: bind_res_def split: option.splits sum.splits)
next
  show "evaluate ops fuel (Program es) s = evaluate ops fuel (Sequence es) s" by simp
qed

theorem sequence_threads_environment_witness:
  "evaluate exact_ops 0 (Program [Assign ''x'' (IntLiteral 5), Print (Variable ''x'')]) EmptyState =
     return (PyInt 5, Integer, State ''x'' (PyInt 5) Integer EmptyState)"
proof -
  have ne: "[Print (Variable ''x'')] \<noteq> ([] :: rat expr list)" by simp
  have a: "evaluate exact_ops 0 (Assign ''x'' (IntLiteral 5)) EmptyState =
     return (PyInt 5, Integer, State ''x'' (PyInt 5) Integer EmptyState)"
    by (simp add: set_value_def)
  have p: "evaluate exact_ops 0 (Sequence [Print (Variable ''x'')])
      (State ''x'' (PyInt 5) Integer EmptyState) =
     return (PyInt 5, Integer, State ''x'' (PyInt 5) Integer EmptyState)"
    by simp
  note t = sequence_threads_environment [of exact_ops 0 EmptyState "[Print (Variable ''x'')]"
      "Assign ''x'' (IntLiteral 5)"]
  from t ne have "evaluate exact_ops 0 (Sequence [Assign ''x'' (IntLiteral 5), Print (Variable ''x'')])
      EmptyState =
     bind_res (evaluate exact_ops 0 (Assign ''x'' (IntLiteral 5)) EmptyState)
       (\<lambda>(v1, t1, s1). evaluate exact_ops 0 (Sequence [Print (Variable ''x'')]) s1)" by blast
  with a p have "evaluate exact_ops 0 (Sequence [Assign ''x'' (IntLiteral 5), Print (Variable ''x'')])
      EmptyState = return (PyInt 5, Integer, State ''x'' (PyInt 5) Integer EmptyState)"
    by simp
  moreover from sequence_threads_environment
    [of exact_ops 0 EmptyState "[Assign ''x'' (IntLiteral 5), Print (Variable ''x'')]"]
  have "evaluate exact_ops 0 (Program [Assign ''x'' (IntLiteral 5), Print (Variable ''x'')]) EmptyState =
    evaluate exact_ops 0 (Sequence [Assign ''x'' (IntLiteral 5), Print (Variable ''x'')]) EmptyState"
    by blast
  ultimately show ?thesis by simp
qed

end
